theory Spec2Isabelle
  imports Complex_Main "HOL-Library.Sublist"
begin

section \<open>JavaScript values used by the storefront code\<close>

text \<open>
  Strings are modelled as Isabelle strings over the ASCII range. The regular expression
  class \<^verbatim>\<open>\s\<close> and \<^verbatim>\<open>trim\<close> see the six ASCII white-space characters, and
  \<^verbatim>\<open>toLowerCase\<close> maps \<^verbatim>\<open>A-Z\<close> to \<^verbatim>\<open>a-z\<close>.
\<close>

definition is_space :: "char \<Rightarrow> bool" where
  "is_space c = (c \<in> set [CHR '' '', CHR 0x09, CHR 0x0A, CHR 0x0B, CHR 0x0C, CHR 0x0D])"

definition lower_char :: "char \<Rightarrow> char" where
  "lower_char c =
     (case map_of (zip ''ABCDEFGHIJKLMNOPQRSTUVWXYZ'' ''abcdefghijklmnopqrstuvwxyz'') c of
        Some d \<Rightarrow> d
      | None \<Rightarrow> c)"

text \<open>\<^verbatim>\<open>s.toLowerCase()\<close>\<close>

definition toLowerCase :: "string \<Rightarrow> string" where
  "toLowerCase s = map lower_char s"

text \<open>\<^verbatim>\<open>s.replace(/-/g, '')\<close>\<close>

definition remove_hyphens :: "string \<Rightarrow> string" where
  "remove_hyphens s = filter (\<lambda>c. c \<noteq> CHR ''-'') s"

text \<open>\<^verbatim>\<open>s.replace(/\s+/g, r)\<close>: every maximal run of white space becomes one copy of \<open>r\<close>.\<close>

function replace_space_runs :: "string \<Rightarrow> string \<Rightarrow> string" where
  "replace_space_runs r [] = []"
| "replace_space_runs r (c # cs) =
     (if is_space c then r @ replace_space_runs r (dropWhile is_space cs)
      else c # replace_space_runs r cs)"
  by pat_completeness auto
termination
  by (relation "measure (\<lambda>(r, s). length s)") (auto simp: length_dropWhile_le less_Suc_eq_le)

text \<open>\<^verbatim>\<open>s.trim()\<close>\<close>

definition trim :: "string \<Rightarrow> string" where
  "trim s = rev (dropWhile is_space (rev (dropWhile is_space s)))"

text \<open>\<^verbatim>\<open>xs.join(sep)\<close> on a list of strings.\<close>

fun join :: "string \<Rightarrow> string list \<Rightarrow> string" where
  "join sep [] = []"
| "join sep [x] = x"
| "join sep (x # y # ys) = x @ sep @ join sep (y # ys)"

text \<open>Decimal rendering of a natural number, as template literals print a status code.\<close>

definition digit_char :: "nat \<Rightarrow> char" where
  "digit_char d = ''0123456789'' ! d"

function show_nat :: "nat \<Rightarrow> string" where
  "show_nat n =
     (if n < 10 then [digit_char n] else show_nat (n div 10) @ [digit_char (n mod 10)])"
  by pat_completeness auto
termination
  by (relation "measure id") auto

declare show_nat.simps [simp del]

text \<open>
  A value decoded from JSON. A number is kept as its JavaScript rendering \<^verbatim>\<open>String(n)\<close>:
  the code below observes numbers only through truthiness and through string conversion,
  and \<^verbatim>\<open>String(n)\<close> is \<^verbatim>\<open>"0"\<close> exactly for the two zeros. An object is its list of
  members, looked up with \<open>map_of\<close>.
\<close>

datatype json =
    JNull
  | JBool bool
  | JNum string
  | JStr string
  | JArr "json list"
  | JObj "(string \<times> json) list"

text \<open>
  Errors as values. \<open>Error m\<close> is \<^verbatim>\<open>new Error(m)\<close>; a \<open>TypeError\<close> and a
  \<open>SyntaxError\<close> carry the expression that raised them; \<open>FetchFailed\<close> is a rejected
  \<^verbatim>\<open>fetch\<close>; \<open>NotFound\<close> is the thrown \<^verbatim>\<open>Response('Bundle not found', {status: 404})\<close>.
\<close>

datatype js_error =
    Error string
  | TypeError string
  | SyntaxError string
  | FetchFailed
  | NotFound

text \<open>JavaScript truthiness of a decoded value.\<close>

fun truthy :: "json \<Rightarrow> bool" where
  "truthy JNull = False"
| "truthy (JBool b) = b"
| "truthy (JNum n) = (n \<noteq> ''0'')"
| "truthy (JStr s) = (s \<noteq> [])"
| "truthy (JArr xs) = True"
| "truthy (JObj kv) = True"

text \<open>
  \<^verbatim>\<open>v.name\<close> for a value \<open>v\<close> other than \<^verbatim>\<open>null\<close>, where \<open>name\<close> is one of the member
  names the code reads (\<^verbatim>\<open>recommendations\<close>, \<^verbatim>\<open>candidates\<close>, \<^verbatim>\<open>content\<close>, \<^verbatim>\<open>parts\<close>,
  \<^verbatim>\<open>text\<close>, \<^verbatim>\<open>type\<close>, \<^verbatim>\<open>value\<close>, \<^verbatim>\<open>children\<close>): none of them is a built-in member of
  a string, number, boolean or array, so only an object can have it. \<open>None\<close> is
  \<^verbatim>\<open>undefined\<close>.
\<close>

fun member :: "json \<Rightarrow> string \<Rightarrow> json option" where
  "member (JObj kv) name = map_of kv name"
| "member v name = None"

text \<open>\<^verbatim>\<open>v[0]\<close> for a value \<open>v\<close> other than \<^verbatim>\<open>null\<close>.\<close>

fun index0 :: "json \<Rightarrow> json option" where
  "index0 (JArr xs) = (case xs of [] \<Rightarrow> None | x # _ \<Rightarrow> Some x)"
| "index0 (JStr s) = (case s of [] \<Rightarrow> None | c # _ \<Rightarrow> Some (JStr [c]))"
| "index0 (JObj kv) = map_of kv ''0''"
| "index0 v = None"

text \<open>\<^verbatim>\<open>xs.map(f)\<close> where \<open>f\<close> may throw: the first exception ends the loop.\<close>

fun map_throwing :: "('a \<Rightarrow> js_error + 'b) \<Rightarrow> 'a list \<Rightarrow> js_error + 'b list" where
  "map_throwing f [] = Inr []"
| "map_throwing f (x # xs) =
     (case f x of
        Inl e \<Rightarrow> Inl e
      | Inr y \<Rightarrow> (case map_throwing f xs of Inl e \<Rightarrow> Inl e | Inr ys \<Rightarrow> Inr (y # ys)))"

text \<open>\<^verbatim>\<open>xs.filter(Boolean)\<close> on the results of \<^verbatim>\<open>find\<close>: \<^verbatim>\<open>undefined\<close> entries are dropped.\<close>

fun filter_Boolean :: "'a option list \<Rightarrow> 'a list" where
  "filter_Boolean [] = []"
| "filter_Boolean (None # xs) = filter_Boolean xs"
| "filter_Boolean (Some x # xs) = x # filter_Boolean xs"

section \<open>The recommendation widget and the recommendation library\<close>

text \<open>A product summary, as the widget and the recommendation endpoint exchange it.\<close>

record product =
  pid :: string
  title :: string
  handle :: string
  description :: "string option"
  price_amount :: "string option"
  featuredImage :: "string option"
  vendor :: "string option"

text \<open>An HTTP request and the response the code reads from \<^verbatim>\<open>fetch\<close>.\<close>

record 'b request =
  url :: string
  http_method :: string
  body :: 'b

record response =
  ok :: bool
  status :: nat
  statusText :: string
  body_text :: string
  body_json :: "json option"

subsection \<open>\<^verbatim>\<open>AIRecommender\<close>: handle matching\<close>

text \<open>The predicate given to \<^verbatim>\<open>availableProducts.find\<close> in the widget.\<close>

definition widget_matches :: "string \<Rightarrow> product \<Rightarrow> bool" where
  "widget_matches h p \<longleftrightarrow>
     handle p = h \<or>
     handle p = remove_hyphens h \<or>
     handle p = toLowerCase (replace_space_runs ''-'' h)"

text \<open>
  \<^verbatim>\<open>availableProducts.find(...)\<close> for one element of the recommendations array. A token
  that is not a string never equals a handle, so on the first product the predicate goes
  on to call \<^verbatim>\<open>handle.replace\<close>, which is a \<open>TypeError\<close>.
\<close>

fun widget_find :: "product list \<Rightarrow> json \<Rightarrow> js_error + product option" where
  "widget_find P (JStr h) = Inr (find (widget_matches h) P)"
| "widget_find P t = (if P = [] then Inr None else Inl (TypeError ''handle.replace''))"

definition widget_recommended :: "product list \<Rightarrow> json list \<Rightarrow> js_error + product list" where
  "widget_recommended P recommendedHandles =
     (case map_throwing (widget_find P) recommendedHandles of
        Inl e \<Rightarrow> Inl e
      | Inr found \<Rightarrow> Inr (take 6 (filter_Boolean found)))"

subsection \<open>\<^verbatim>\<open>AIRecommender\<close>: filling with fallback products\<close>

definition widget_fill :: "product list \<Rightarrow> product list \<Rightarrow> product list" where
  "widget_fill recommended fallbackProducts =
     (if length recommended < 4 \<and> length fallbackProducts > 0 then
        let usedHandles = set (map handle recommended);
            additional = take (6 - length recommended)
                           (filter (\<lambda>p. handle p \<notin> usedHandles) fallbackProducts)
        in recommended @ additional
      else recommended)"

definition widget_merge :: "product list \<Rightarrow> product list \<Rightarrow> product list" where
  "widget_merge recommended fallbackProducts =
     (let filled = widget_fill recommended fallbackProducts
      in if length filled > 0 then filled else take 6 fallbackProducts)"

subsection \<open>\<^verbatim>\<open>AIRecommender\<close>: the effect\<close>

record current_product =
  cp_title :: "string option"
  cp_description :: "string option"

record props =
  currentProduct :: "current_product option"
  availableProducts :: "product list"
  userQuery :: "string option"
  fallbackProducts :: "product list"

record recommendation_context =
  currentProductTitle :: "string option"
  currentProductDescription :: "string option"
  ctx_availableProducts :: "product list"
  ctx_userQuery :: "string option"

record widget_state =
  recommendedProducts :: "product list"
  loading :: bool
  error :: "js_error option"

definition widget_request :: "props \<Rightarrow> recommendation_context request" where
  "widget_request pr =
     \<lparr>url = ''/api/recommendations'',
      http_method = ''POST'',
      body = \<lparr>currentProductTitle = Option.bind (currentProduct pr) cp_title,
              currentProductDescription = Option.bind (currentProduct pr) cp_description,
              ctx_availableProducts =
                map (\<lambda>p. p\<lparr>featuredImage := None\<rparr>) (availableProducts pr),
              ctx_userQuery = userQuery pr\<rparr>\<rparr>"

text \<open>
  \<^verbatim>\<open>data.recommendations || []\<close> followed by \<^verbatim>\<open>.map\<close>: reading a member of \<^verbatim>\<open>null\<close>
  is a \<open>TypeError\<close>, and so is \<^verbatim>\<open>.map\<close> on a truthy value that is not an array.
\<close>

definition widget_handles :: "json \<Rightarrow> js_error + json list" where
  "widget_handles data =
     (if data = JNull then Inl (TypeError ''data.recommendations'')
      else (case member data ''recommendations'' of
        None \<Rightarrow> Inr []
      | Some v \<Rightarrow>
          (if \<not> truthy v then Inr []
           else (case v of
             JArr hs \<Rightarrow> Inr hs
           | _ \<Rightarrow> Inl (TypeError ''recommendedHandles.map'')))))"

text \<open>The body of the \<^verbatim>\<open>try\<close> block: the value passed to \<^verbatim>\<open>setRecommendedProducts\<close>.\<close>

definition widget_try ::
  "(recommendation_context request \<Rightarrow> js_error + response) \<Rightarrow> props \<Rightarrow> js_error + product list"
where
  "widget_try fetch pr =
     (case fetch (widget_request pr) of
        Inl e \<Rightarrow> Inl e
      | Inr resp \<Rightarrow>
          (if \<not> ok resp then Inl (Error ''Failed to fetch recommendations'')
           else (case body_json resp of
             None \<Rightarrow> Inl (SyntaxError ''response.json()'')
           | Some data \<Rightarrow>
               (case widget_handles data of
                  Inl e \<Rightarrow> Inl e
                | Inr recommendedHandles \<Rightarrow>
                    (case widget_recommended (availableProducts pr) recommendedHandles of
                       Inl e \<Rightarrow> Inl e
                     | Inr recommended \<Rightarrow>
                         Inr (widget_merge recommended (fallbackProducts pr)))))))"

text \<open>
  \<^verbatim>\<open>fetchRecommendations\<close> inside \<^verbatim>\<open>useEffect\<close>. The result is the list of requests sent
  and the component state after the effect.
\<close>

definition fetchRecommendations ::
  "(recommendation_context request \<Rightarrow> js_error + response) \<Rightarrow> props \<Rightarrow> widget_state
     \<Rightarrow> recommendation_context request list \<times> widget_state"
where
  "fetchRecommendations fetch pr st =
     (if length (availableProducts pr) = 0 then
        ([], st\<lparr>recommendedProducts := take 6 (fallbackProducts pr), loading := False\<rparr>)
      else
        let st1 = st\<lparr>loading := True, error := None\<rparr>;
            st2 = (case widget_try fetch pr of
                     Inr products \<Rightarrow> st1\<lparr>recommendedProducts := products\<rparr>
                   | Inl err \<Rightarrow>
                       st1\<lparr>error := Some err,
                           recommendedProducts := take 6 (fallbackProducts pr)\<rparr>)
        in ([widget_request pr], st2\<lparr>loading := False\<rparr>))"

subsection \<open>\<^verbatim>\<open>getRecommendationsWithFallback\<close>: matching and filling\<close>

definition lib_matches :: "string \<Rightarrow> product \<Rightarrow> bool" where
  "lib_matches h p \<longleftrightarrow> handle p = h \<or> handle p = remove_hyphens h"

fun lib_find :: "product list \<Rightarrow> json \<Rightarrow> js_error + product option" where
  "lib_find P (JStr h) = Inr (find (lib_matches h) P)"
| "lib_find P t = (if P = [] then Inr None else Inl (TypeError ''handle.replace''))"

definition lib_recommended :: "product list \<Rightarrow> json list \<Rightarrow> js_error + product list" where
  "lib_recommended P recommendedHandles =
     (case map_throwing (lib_find P) recommendedHandles of
        Inl e \<Rightarrow> Inl e
      | Inr found \<Rightarrow> Inr (take 6 (filter_Boolean found)))"

definition lib_fill :: "product list \<Rightarrow> product list \<Rightarrow> product list" where
  "lib_fill recommended fallback =
     (if length recommended < 4 \<and> length fallback > 0 then
        let usedHandles = set (map handle recommended);
            additional = take (4 - length recommended)
                           (filter (\<lambda>p. handle p \<notin> usedHandles) fallback)
        in recommended @ additional
      else recommended)"

definition lib_merge :: "product list \<Rightarrow> product list \<Rightarrow> product list" where
  "lib_merge recommended fallback =
     (let filled = lib_fill recommended fallback
      in if length filled > 0 then filled else take 6 fallback)"

subsection \<open>\<^verbatim>\<open>getGeminiRecommendations\<close>\<close>

text \<open>The part of the request body the code fills in.\<close>

record gemini_body =
  prompt :: string
  temperature :: rat
  topK :: nat
  topP :: rat
  maxOutputTokens :: nat

text \<open>A string is truthy when it is present and not empty.\<close>

fun truthy_string :: "string option \<Rightarrow> bool" where
  "truthy_string None = False"
| "truthy_string (Some s) = (s \<noteq> [])"

definition product_line :: "product \<Rightarrow> string" where
  "product_line p =
     ''- '' @ title p @ '' ('' @ handle p @ '')'' @
     (if truthy_string (description p) then '': '' @ take 100 (the (description p)) else [])"

definition build_prompt :: "recommendation_context \<Rightarrow> string" where
  "build_prompt c =
     (let productList = join ''\<newline>'' (map product_line (take 20 (ctx_availableProducts c)));
          p0 = ''You are an AI shopping assistant. Analyze the following products and provide personalized recommendations.\<newline>\<newline>'';
          p1 = (if truthy_string (currentProductTitle c) then
                  p0 @ ''Current Product: '' @ the (currentProductTitle c) @ ''\<newline>'' @
                  (if truthy_string (currentProductDescription c) then
                     ''Description: '' @ take 300 (the (currentProductDescription c)) @
                     ''\<newline>\<newline>''
                   else [])
                else p0);
          p2 = (if truthy_string (ctx_userQuery c) then
                  p1 @ ''User Preference: '' @ the (ctx_userQuery c) @ ''\<newline>\<newline>''
                else p1);
          p3 = p2 @ ''Available Products:\<newline>'' @ productList @ ''\<newline>\<newline>'';
          p4 = p3 @ ''Based on the context above, recommend 4-6 products that would be most relevant. '';
          p5 = p4 @ ''Return ONLY a JSON array of product handles (the handle is the URL-friendly identifier in parentheses), like this: ['' @
                 [CHR 0x22] @ ''product-handle-1'' @ [CHR 0x22] @ '', '' @
                 [CHR 0x22] @ ''product-handle-2'' @ [CHR 0x22] @ '', '' @
                 [CHR 0x22] @ ''product-handle-3'' @ [CHR 0x22] @ '', '' @
                 [CHR 0x22] @ ''product-handle-4'' @ [CHR 0x22] @ '']\<newline>''
      in p5 @ ''Do not include any explanation, only the JSON array.'')"

definition gemini_request :: "string \<Rightarrow> recommendation_context \<Rightarrow> gemini_body request" where
  "gemini_request apiKey c =
     \<lparr>url = ''https://generativelanguage.googleapis.com/v1beta/models/gemini-pro:generateContent?key='' @ apiKey,
      http_method = ''POST'',
      body = \<lparr>prompt = build_prompt c, temperature = 7 / 10, topK = 40, topP = 95 / 100,
              maxOutputTokens = 1024\<rparr>\<rparr>"

text \<open>\<^verbatim>\<open>v?.name\<close>: \<^verbatim>\<open>undefined\<close> when \<open>v\<close> is \<^verbatim>\<open>undefined\<close> or \<^verbatim>\<open>null\<close>.\<close>

fun optional_member :: "json option \<Rightarrow> string \<Rightarrow> json option" where
  "optional_member None name = None"
| "optional_member (Some JNull) name = None"
| "optional_member (Some v) name = member v name"

text \<open>\<^verbatim>\<open>!v\<close> for a value that may be \<^verbatim>\<open>undefined\<close>.\<close>

fun falsy :: "json option \<Rightarrow> bool" where
  "falsy None = True"
| "falsy (Some v) = (\<not> truthy v)"

text \<open>
  The check of the response envelope and the read of
  \<^verbatim>\<open>data.candidates[0].content.parts[0].text.trim()\<close>.
\<close>

definition response_text :: "json \<Rightarrow> js_error + string" where
  "response_text data =
     (if data = JNull then Inl (TypeError ''data.candidates'')
      else
        let candidates = member data ''candidates'' in
        if falsy candidates then Inl (Error ''Invalid response from Gemini API'')
        else
          let parts = optional_member (optional_member (index0 (the candidates)) ''content'') ''parts'' in
          if falsy parts then Inl (Error ''Invalid response from Gemini API'')
          else (case index0 (the parts) of
                  None \<Rightarrow> Inl (TypeError ''parts[0].text'')
                | Some JNull \<Rightarrow> Inl (TypeError ''parts[0].text'')
                | Some part \<Rightarrow>
                    (case member part ''text'' of
                       Some (JStr t) \<Rightarrow> Inr (trim t)
                     | _ \<Rightarrow> Inl (TypeError ''text.trim''))))"

text \<open>
  \<^verbatim>\<open>responseText.match(/\[.*\]/s)\<close>: the match starts at the first opening bracket and,
  the star being greedy and the dot matching every character, ends at the last closing
  bracket after it.
\<close>

definition match_array :: "string \<Rightarrow> string option" where
  "match_array s =
     (case dropWhile (\<lambda>c. c \<noteq> CHR ''['') s of
        [] \<Rightarrow> None
      | b # rest \<Rightarrow>
          if CHR '']'' \<in> set rest
          then Some (b # rev (dropWhile (\<lambda>c. c \<noteq> CHR '']'') (rev rest)))
          else None)"

text \<open>
  Lines 321 to 334: from the trimmed response text to the array of recommendations.
  \<open>JSON_parse\<close> is the platform's decoder; \<open>None\<close> is its \<open>SyntaxError\<close>.
\<close>

definition parse_recommendations :: "(string \<Rightarrow> json option) \<Rightarrow> string \<Rightarrow> js_error + json list" where
  "parse_recommendations JSON_parse responseText =
     (case match_array responseText of
        None \<Rightarrow> Inl (Error ''Could not parse recommendations from Gemini response'')
      | Some jsonMatch \<Rightarrow>
          (case JSON_parse jsonMatch of
             None \<Rightarrow> Inl (SyntaxError ''JSON.parse'')
           | Some (JArr recommendations) \<Rightarrow> Inr recommendations
           | Some _ \<Rightarrow> Inl (Error ''Gemini response is not an array'')))"

text \<open>
  The function returns the requests it sent and its result. The \<^verbatim>\<open>catch\<close> block logs
  the error and throws it again, so an error of the \<^verbatim>\<open>try\<close> block is the error of the
  function.
\<close>

definition getGeminiRecommendations ::
  "(gemini_body request \<Rightarrow> js_error + response) \<Rightarrow> (string \<Rightarrow> json option) \<Rightarrow>
   string option \<Rightarrow> recommendation_context \<Rightarrow> gemini_body request list \<times> (js_error + json list)"
where
  "getGeminiRecommendations fetch JSON_parse apiKey c =
     (if \<not> truthy_string apiKey then ([], Inl (Error ''Gemini API key is required''))
      else
        let req = gemini_request (the apiKey) c in
        ([req],
         (case fetch req of
            Inl e \<Rightarrow> Inl e
          | Inr resp \<Rightarrow>
              (if \<not> ok resp then
                 Inl (Error (''Gemini API error: '' @ show_nat (status resp) @ '' '' @
                             statusText resp @ '' - '' @ body_text resp))
               else (case body_json resp of
                  None \<Rightarrow> Inl (SyntaxError ''response.json()'')
                | Some data \<Rightarrow>
                    (case response_text data of
                       Inl e \<Rightarrow> Inl e
                     | Inr responseText \<Rightarrow> parse_recommendations JSON_parse responseText))))))"

subsection \<open>\<^verbatim>\<open>getRecommendationsWithFallback\<close>\<close>

definition getRecommendationsWithFallback ::
  "(gemini_body request \<Rightarrow> js_error + response) \<Rightarrow> (string \<Rightarrow> json option) \<Rightarrow>
   string option \<Rightarrow> recommendation_context \<Rightarrow> product list \<Rightarrow> product list"
where
  "getRecommendationsWithFallback fetch JSON_parse apiKey c fallback =
     (case snd (getGeminiRecommendations fetch JSON_parse apiKey c) of
        Inl e \<Rightarrow> take 6 fallback
      | Inr recommendedHandles \<Rightarrow>
          (case lib_recommended (ctx_availableProducts c) recommendedHandles of
             Inl e \<Rightarrow> take 6 fallback
           | Inr recommended \<Rightarrow> lib_merge recommended fallback))"

section \<open>The bundle page\<close>

subsection \<open>Numbers\<close>

text \<open>
  A JavaScript number is \<open>NaN\<close>, an infinity or a finite value. Finite values are
  computed exactly, as rationals: the rounding of IEEE doubles, overflow to an infinity
  and the sign of zero are not part of the model.
\<close>

datatype jsnum = NaN | Fin rat | PosInf | NegInf

definition isNaN :: "jsnum \<Rightarrow> bool" where
  "isNaN x = (x = NaN)"

fun num_neg :: "jsnum \<Rightarrow> jsnum" where
  "num_neg NaN = NaN"
| "num_neg (Fin x) = Fin (- x)"
| "num_neg PosInf = NegInf"
| "num_neg NegInf = PosInf"

fun num_add :: "jsnum \<Rightarrow> jsnum \<Rightarrow> jsnum" where
  "num_add NaN y = NaN"
| "num_add x NaN = NaN"
| "num_add (Fin x) (Fin y) = Fin (x + y)"
| "num_add (Fin x) y = y"
| "num_add x (Fin y) = x"
| "num_add x y = (if x = y then x else NaN)"

definition num_sub :: "jsnum \<Rightarrow> jsnum \<Rightarrow> jsnum" where
  "num_sub x y = num_add x (num_neg y)"

text \<open>The sign of a number other than \<open>NaN\<close>: \<open>-1\<close>, \<open>0\<close> or \<open>1\<close>.\<close>

fun num_sign :: "jsnum \<Rightarrow> int" where
  "num_sign (Fin x) = (if x < 0 then - 1 else if x = 0 then 0 else 1)"
| "num_sign PosInf = 1"
| "num_sign NegInf = - 1"
| "num_sign NaN = 0"

fun num_mul :: "jsnum \<Rightarrow> jsnum \<Rightarrow> jsnum" where
  "num_mul NaN y = NaN"
| "num_mul x NaN = NaN"
| "num_mul (Fin x) (Fin y) = Fin (x * y)"
| "num_mul x y =
     (if num_sign x * num_sign y = 0 then NaN
      else if num_sign x * num_sign y > 0 then PosInf else NegInf)"

text \<open>\<^verbatim>\<open>x / 100\<close>\<close>

fun num_div100 :: "jsnum \<Rightarrow> jsnum" where
  "num_div100 (Fin x) = Fin (x / 100)"
| "num_div100 x = x"

text \<open>\<^verbatim>\<open>x > 0\<close>\<close>

fun num_positive :: "jsnum \<Rightarrow> bool" where
  "num_positive (Fin x) = (0 < x)"
| "num_positive PosInf = True"
| "num_positive x = False"

definition is_digit :: "char \<Rightarrow> bool" where
  "is_digit c = (c \<in> set ''0123456789'')"

definition digit_val :: "char \<Rightarrow> nat" where
  "digit_val c = (case map_of (zip ''0123456789'' [0, 1, 2, 3, 4, 5, 6, 7, 8, 9]) c of
                   Some d \<Rightarrow> d | None \<Rightarrow> 0)"

definition digits_val :: "string \<Rightarrow> nat" where
  "digits_val ds = foldl (\<lambda>n c. 10 * n + digit_val c) 0 ds"

text \<open>The exponent part at the head of a string, \<open>0\<close> when there is none.\<close>

definition exponent_part :: "string \<Rightarrow> int" where
  "exponent_part s =
     (case s of
        [] \<Rightarrow> 0
      | e # r \<Rightarrow>
          if e = CHR ''e'' \<or> e = CHR ''E'' then
            (case r of
               [] \<Rightarrow> 0
             | g # ds \<Rightarrow>
                 if g = CHR ''+'' then int (digits_val (takeWhile is_digit ds))
                 else if g = CHR ''-'' then - int (digits_val (takeWhile is_digit ds))
                 else int (digits_val (takeWhile is_digit r)))
          else 0)"

definition scale10 :: "rat \<Rightarrow> int \<Rightarrow> rat" where
  "scale10 x e = (if 0 \<le> e then x * 10 ^ nat e else x / 10 ^ nat (- e))"

text \<open>
  \<^verbatim>\<open>parseFloat(s)\<close>: leading white space is skipped, the longest prefix that is a decimal
  literal is read, and there being none the result is \<open>NaN\<close>.
\<close>

definition parseFloat :: "string \<Rightarrow> jsnum" where
  "parseFloat s =
     (let t = dropWhile is_space s;
          negative = (t \<noteq> [] \<and> hd t = CHR ''-'');
          u = (if t \<noteq> [] \<and> (hd t = CHR ''-'' \<or> hd t = CHR ''+'') then tl t else t)
      in if take 8 u = ''Infinity'' then (if negative then NegInf else PosInf)
         else
           let ip = takeWhile is_digit u;
               r1 = dropWhile is_digit u;
               dot = (r1 \<noteq> [] \<and> hd r1 = CHR ''.'');
               fp = (if dot then takeWhile is_digit (tl r1) else []);
               r2 = (if dot then dropWhile is_digit (tl r1) else r1)
           in if ip = [] \<and> fp = [] then NaN
              else
                let m = scale10 (of_nat (digits_val ip) + of_nat (digits_val fp) / 10 ^ length fp)
                          (exponent_part r2)
                in Fin (if negative then - m else m))"

text \<open>
  \<^verbatim>\<open>x.toFixed(0)\<close>: the nearest integer, a tie going away from zero, with the sign of \<open>x\<close>
  in front. (For a magnitude of \<open>10^21\<close> or more JavaScript prints an exponent instead;
  prices are far below.)
\<close>

fun toFixed0 :: "jsnum \<Rightarrow> string" where
  "toFixed0 NaN = ''NaN''"
| "toFixed0 PosInf = ''Infinity''"
| "toFixed0 NegInf = ''-Infinity''"
| "toFixed0 (Fin x) = (if x < 0 then ''-'' else []) @ show_nat (nat \<lfloor>\<bar>x\<bar> + 1 / 2\<rfloor>)"

subsection \<open>\<^verbatim>\<open>extractPlainText\<close>\<close>

text \<open>
  String conversion of a decoded value, as \<^verbatim>\<open>Array.prototype.join\<close> applies it to an
  element: an array is its elements joined with commas, \<^verbatim>\<open>null\<close> elements being empty.
\<close>

fun js_toString :: "json \<Rightarrow> string" where
  "js_toString JNull = ''null''"
| "js_toString (JBool b) = (if b then ''true'' else ''false'')"
| "js_toString (JNum n) = n"
| "js_toString (JStr s) = s"
| "js_toString (JArr xs) = join '','' (map (\<lambda>x. if x = JNull then [] else js_toString x) xs)"
| "js_toString (JObj kv) = ''[object Object]''"

text \<open>
  \<^verbatim>\<open>walk\<close>. The result is a JavaScript value: a text node returns its \<^verbatim>\<open>value\<close> member
  as it is when that is truthy, whatever its type.
\<close>

function walk :: "json \<Rightarrow> json" where
  "walk (JObj kv) =
     (if map_of kv ''type'' = Some (JStr ''text'') then
        (case map_of kv ''value'' of
           None \<Rightarrow> JStr []
         | Some v \<Rightarrow> if truthy v then v else JStr [])
      else
        (case map_of kv ''children'' of
           Some (JArr children) \<Rightarrow> JStr (join '' '' (map (\<lambda>c. js_toString (walk c)) children))
         | _ \<Rightarrow> JStr []))"
| "walk JNull = JStr []"
| "walk (JBool b) = JStr []"
| "walk (JNum n) = JStr []"
| "walk (JStr s) = JStr []"
| "walk (JArr xs) = JStr []"
  by pat_completeness auto

lemma size_map_of_less:
  "map_of kv k = Some v \<Longrightarrow> size v < Suc (size_list (size_prod (\<lambda>_. 0) size) kv)"
  by (induction kv) (auto split: if_splits)

lemma size_member_less: "x \<in> set xs \<Longrightarrow> size x < Suc (size_list size xs)"
  by (induction xs) auto

termination walk
proof (relation "measure size")
  show "wf (measure size)"
    by simp
next
  fix kv :: "(string \<times> json) list" and x2 children and c :: json
  assume a: "map_of kv ''children'' = Some x2" "x2 = JArr children" "c \<in> set children"
  from a(1) have "size x2 < Suc (size_list (size_prod (\<lambda>_. 0) size) kv)"
    by (rule size_map_of_less)
  moreover from a(3) have "size c < Suc (size_list size children)"
    by (rule size_member_less)
  ultimately show "(c, JObj kv) \<in> measure size"
    using a(2) by simp
qed

text \<open>
  \<^verbatim>\<open>extractPlainText(value)\<close>. A missing or empty value gives the empty string. A
  \<open>SyntaxError\<close> of the decoder, and the \<open>TypeError\<close> of calling \<^verbatim>\<open>replace\<close> on a result
  of \<^verbatim>\<open>walk\<close> that is not a string, are caught: the value is returned as it came.
\<close>

definition extractPlainText :: "(string \<Rightarrow> json option) \<Rightarrow> string option \<Rightarrow> string" where
  "extractPlainText JSON_parse v =
     (if \<not> truthy_string v then []
      else (case JSON_parse (the v) of
              None \<Rightarrow> the v
            | Some richText \<Rightarrow>
                (case walk richText of
                   JStr s \<Rightarrow> trim (replace_space_runs '' '' s)
                 | _ \<Rightarrow> the v)))"

subsection \<open>\<^verbatim>\<open>formatImageReference\<close> and \<^verbatim>\<open>formatBundleFields\<close>\<close>

record variant =
  variant_id :: "string option"
  availableForSale :: bool
  variant_title :: string

record bundle_product =
  bp_id :: string
  bp_handle :: string
  bp_title :: string
  bp_featuredImage :: "string option"
  variants :: "variant list"
  amount :: string
  currencyCode :: string

record image_data =
  image_url :: "string option"
  image_altText :: "string option"

text \<open>
  The object a field refers to, by its \<^verbatim>\<open>__typename\<close>: a product, a media image with
  its \<^verbatim>\<open>image\<close> member, a generic file with its \<^verbatim>\<open>url\<close> and \<^verbatim>\<open>alt\<close>, or another type.
\<close>

datatype reference =
    Product bundle_product
  | MediaImage "image_data option"
  | GenericFile "string option" "string option"
  | OtherReference

record image =
  img_url :: string
  altText :: string

record bundle_field =
  field_key :: string
  field_value :: "string option"
  field_type :: string
  field_reference :: "reference option"
  field_references :: "reference list option"

text \<open>\<^verbatim>\<open>s ?? ''\<close>\<close>

fun or_empty :: "string option \<Rightarrow> string" where
  "or_empty None = []"
| "or_empty (Some s) = s"

fun formatImageReference :: "reference option \<Rightarrow> image option" where
  "formatImageReference None = None"
| "formatImageReference (Some (MediaImage i)) =
     (let u = Option.bind i image_url in
      if \<not> truthy_string u then None
      else Some \<lparr>img_url = the u, altText = or_empty (Option.bind i image_altText)\<rparr>)"
| "formatImageReference (Some (GenericFile u a)) =
     (if \<not> truthy_string u then None
      else Some \<lparr>img_url = the u, altText = or_empty a\<rparr>)"
| "formatImageReference (Some r) = None"

text \<open>A member of the flattened record: a string, \<^verbatim>\<open>null\<close>, or an image.\<close>

datatype fval = FString string | FNull | FImage image

fun raw_value :: "string option \<Rightarrow> fval" where
  "raw_value None = FNull"
| "raw_value (Some s) = FString s"

text \<open>The function given to \<^verbatim>\<open>fields.reduce\<close>.\<close>

definition format_step ::
  "(string \<Rightarrow> json option) \<Rightarrow> (string \<rightharpoonup> fval) \<Rightarrow> bundle_field \<Rightarrow> (string \<rightharpoonup> fval)"
where
  "format_step JSON_parse acc f =
     (if field_key f = ''products'' then acc
      else if field_type f = ''rich_text_field'' then
        acc(field_key f \<mapsto> FString (extractPlainText JSON_parse (field_value f)))
      else
        (case (if field_type f = ''file_reference''
               then formatImageReference (field_reference f) else None) of
           Some img \<Rightarrow> acc(field_key f \<mapsto> FImage img)
         | None \<Rightarrow> acc(field_key f \<mapsto> raw_value (field_value f))))"

definition formatBundleFields ::
  "(string \<Rightarrow> json option) \<Rightarrow> bundle_field list \<Rightarrow> (string \<rightharpoonup> fval)"
where
  "formatBundleFields JSON_parse fs = foldl (format_step JSON_parse) Map.empty fs"

subsection \<open>\<^verbatim>\<open>collectProducts\<close>\<close>

fun product_references :: "reference list \<Rightarrow> bundle_product list" where
  "product_references [] = []"
| "product_references (Product p # rs) = p # product_references rs"
| "product_references (r # rs) = product_references rs"

definition isProductField :: "bundle_field \<Rightarrow> bool" where
  "isProductField f \<longleftrightarrow>
     field_type f \<noteq> [] \<and>
     (field_type f = ''product_reference'' \<or> field_type f = ''list.product_reference'')"

record normalized_product =
  np_reference :: bundle_product
  firstVariant :: "variant option"

definition normalizeProduct :: "bundle_product \<Rightarrow> normalized_product" where
  "normalizeProduct r =
     \<lparr>np_reference = r,
      firstVariant = (case variants r of [] \<Rightarrow> None | v # _ \<Rightarrow> Some v)\<rparr>"

text \<open>
  The query asks for \<^verbatim>\<open>references.nodes\<close> only, so \<open>field_references\<close> is that list,
  \<open>None\<close> when the field has no \<^verbatim>\<open>references\<close>.
\<close>

definition field_products :: "bundle_field \<Rightarrow> bundle_product list" where
  "field_products f =
     (if \<not> isProductField f then []
      else
        product_references (case field_reference f of None \<Rightarrow> [] | Some r \<Rightarrow> [r]) @
        product_references (case field_references f of None \<Rightarrow> [] | Some nodes \<Rightarrow> nodes))"

definition collectProducts :: "bundle_field list \<Rightarrow> normalized_product list" where
  "collectProducts fs = map normalizeProduct (concat (map field_products fs))"

subsection \<open>\<^verbatim>\<open>loader\<close>: the price of a bundle\<close>

record metaobject =
  mo_id :: string
  mo_handle :: string
  mo_fields :: "bundle_field list"

record pricing =
  subtotal :: jsnum
  bundlePrice :: jsnum
  savingsLabel :: string

record loader_data =
  ld_bundle :: "string \<rightharpoonup> fval"
  ld_products :: "normalized_product list"
  ld_pricing :: pricing

text \<open>
  \<^verbatim>\<open>parseFloat\<close> of a member of the bundle: a member that is missing, \<^verbatim>\<open>null\<close> or an
  image converts to a string that is no number.
\<close>

fun parseFloat_member :: "fval option \<Rightarrow> jsnum" where
  "parseFloat_member (Some (FString s)) = parseFloat s"
| "parseFloat_member v = NaN"

definition subtotal_of :: "normalized_product list \<Rightarrow> jsnum" where
  "subtotal_of ps =
     foldl (\<lambda>sum p.
              let price = parseFloat (amount (np_reference p))
              in num_add sum (if isNaN price then Fin 0 else price))
           (Fin 0) ps"

text \<open>Lines 219 to 248. The two \<^verbatim>\<open>if\<close> statements run one after the other.\<close>

definition compute_pricing :: "normalized_product list \<Rightarrow> (string \<rightharpoonup> fval) \<Rightarrow> pricing" where
  "compute_pricing ps b =
     (let sub = subtotal_of ps;
          start = \<lparr>subtotal = sub, bundlePrice = sub, savingsLabel = []\<rparr>;
          after_fixed =
            (if b ''bundle_type'' = Some (FString ''fixed_price'') then
               let price = parseFloat_member (b ''discount_value'');
                   savings = num_sub sub price
               in start\<lparr>bundlePrice := price,
                        savingsLabel := (if num_positive savings
                                         then ''You save '' @ toFixed0 savings else [])\<rparr>
             else start)
      in if b ''bundle_type'' = Some (FString ''percentage'') then
           let discountPercent = parseFloat_member (b ''discount_value'') in
           if \<not> isNaN discountPercent then
             let savings = num_div100 (num_mul sub discountPercent)
             in after_fixed\<lparr>bundlePrice := num_sub sub savings,
                             savingsLabel := ''You save '' @ toFixed0 discountPercent @ ''%''\<rparr>
           else after_fixed
         else after_fixed)"

definition loader :: "(string \<Rightarrow> json option) \<Rightarrow> metaobject option \<Rightarrow> js_error + loader_data" where
  "loader JSON_parse queried =
     (case queried of
        None \<Rightarrow> Inl NotFound
      | Some meta \<Rightarrow>
          let fieldsObject = formatBundleFields JSON_parse (mo_fields meta);
              ps = collectProducts (mo_fields meta);
              b = [''id'' \<mapsto> FString (mo_id meta), ''handle'' \<mapsto> FString (mo_handle meta)]
                    ++ fieldsObject
          in Inr \<lparr>ld_bundle = b, ld_products = ps, ld_pricing = compute_pricing ps b\<rparr>)"

section \<open>The specification's wording, for comparison with the code\<close>

text \<open>
  The fallback policy as the specification words it: go through the fallback list in
  order, skip a product whose handle is among the matched entries \<open>M\<close>, and stop once
  the combined sequence has \<open>cap\<close> entries.
\<close>

fun spec_append_fallback ::
  "nat \<Rightarrow> product list \<Rightarrow> product list \<Rightarrow> product list \<Rightarrow> product list"
where
  "spec_append_fallback cap M acc [] = acc"
| "spec_append_fallback cap M acc (p # ps) =
     (if cap \<le> length acc then acc
      else if handle p \<in> set (map handle M) then spec_append_fallback cap M acc ps
      else spec_append_fallback cap M (acc @ [p]) ps)"

text \<open>
  The three encodings of a token that the specification lists: the token verbatim, the
  token with all hyphens removed, and the token lower-cased with runs of white space
  replaced by single hyphens.
\<close>

definition spec_encodings :: "string \<Rightarrow> string list" where
  "spec_encodings t =
     [t, filter (\<lambda>c. c \<noteq> CHR ''-'') t, replace_space_runs ''-'' (map lower_char t)]"

text \<open>\<open>p\<close> is the first element of \<open>xs\<close> that satisfies \<open>good\<close>.\<close>

definition first_such :: "('a \<Rightarrow> bool) \<Rightarrow> 'a list \<Rightarrow> 'a \<Rightarrow> bool" where
  "first_such good xs p \<longleftrightarrow>
     (\<exists>pre post. xs = pre @ p # post \<and> good p \<and> (\<forall>q \<in> set pre. \<not> good q))"

text \<open>
  The subtotal as the specification words it: the sum of the products' amounts, an amount
  that is not a number counting as zero.
\<close>

definition amount_or_zero :: "normalized_product \<Rightarrow> jsnum" where
  "amount_or_zero p =
     (if parseFloat (amount (np_reference p)) = NaN then Fin 0
      else parseFloat (amount (np_reference p)))"

definition num_sum :: "jsnum list \<Rightarrow> jsnum" where
  "num_sum xs = foldr num_add xs (Fin 0)"

definition spec_subtotal :: "normalized_product list \<Rightarrow> jsnum" where
  "spec_subtotal ps = num_sum (map amount_or_zero ps)"








text \<open>
  Modelled from the spec: the error taxonomy of its section 7 (\<open>ConfigurationError\<close>: a
  missing credential; \<open>UpstreamError\<close>: a non-success or malformed response of the
  generative API; \<open>ParseError\<close>: a response text without a decodable array). The code
  declares no error classes: each failure of \<^verbatim>\<open>getGeminiRecommendations\<close> is a plain
  \<^verbatim>\<open>Error\<close> with a message, or a \<open>TypeError\<close> or \<open>SyntaxError\<close> of the platform, and is
  classified here by its cause.
\<close>

datatype error_class = ConfigurationError | UpstreamError | ParseError | OtherError

fun classify :: "js_error \<Rightarrow> error_class" where
  "classify (Error m) =
     (if m = ''Gemini API key is required'' then ConfigurationError
      else if take 18 m = ''Gemini API error: '' \<or> m = ''Invalid response from Gemini API''
        then UpstreamError
      else if m = ''Could not parse recommendations from Gemini response'' \<or>
              m = ''Gemini response is not an array''
        then ParseError
      else OtherError)"
| "classify (SyntaxError site) =
     (if site = ''JSON.parse'' then ParseError
      else if site = ''response.json()'' then UpstreamError
      else OtherError)"
| "classify (TypeError site) =
     (if site \<in> set [''data.candidates'', ''parts[0].text'', ''text.trim'']
      then UpstreamError else OtherError)"
| "classify FetchFailed = OtherError"
| "classify NotFound = OtherError"


text \<open>
  The bracketed-array pattern in the specification's words. A text has a match when some
  opening bracket is followed, at any distance, by a closing bracket. The greedy match
  \<open>m\<close> starts at the first opening bracket of the text and ends at its last closing
  bracket.
\<close>

definition has_bracketed :: "string \<Rightarrow> bool" where
  "has_bracketed s \<longleftrightarrow> (\<exists>a inner z. s = a @ CHR ''['' # inner @ CHR '']'' # z)"

definition greedy_match :: "string \<Rightarrow> string \<Rightarrow> bool" where
  "greedy_match s m \<longleftrightarrow>
     (\<exists>a inner z. s = a @ m @ z \<and> m = CHR ''['' # inner @ [CHR '']''] \<and>
        CHR ''['' \<notin> set a \<and> CHR '']'' \<notin> set z)"

fun is_array :: "json \<Rightarrow> bool" where
  "is_array (JArr xs) = True"
| "is_array v = False"

section \<open>Sample data\<close>

definition sample_product :: "string \<Rightarrow> product" where
  "sample_product h =
     \<lparr>pid = ''gid://shopify/Product/'' @ h, title = h, handle = h, description = None,
      price_amount = None, featuredImage = None, vendor = None\<rparr>"

definition six_fallbacks :: "product list" where
  "six_fallbacks = map sample_product [''f1'', ''f2'', ''f3'', ''f4'', ''f5'', ''f6'']"

definition sample_state :: widget_state where
  "sample_state = \<lparr>recommendedProducts = [], loading = True, error = None\<rparr>"

definition json_response :: "json \<Rightarrow> response" where
  "json_response v =
     \<lparr>ok = True, status = 200, statusText = ''OK'', body_text = [], body_json = Some v\<rparr>"

definition red_shirt :: product where
  "red_shirt = sample_product ''red-shirt''"

definition blue_hat :: product where
  "blue_hat = sample_product ''blue-hat''"

text \<open>A response of the generative API whose text part is \<open>t\<close>.\<close>

definition gemini_response :: "string \<Rightarrow> response" where
  "gemini_response t =
     json_response (JObj [(''candidates'',
       JArr [JObj [(''content'', JObj [(''parts'', JArr [JObj [(''text'', JStr t)]])])]])])"

definition sample_context :: recommendation_context where
  "sample_context =
     \<lparr>currentProductTitle = None, currentProductDescription = None,
      ctx_availableProducts = [blue_hat, red_shirt], ctx_userQuery = None\<rparr>"


text \<open>What \<^verbatim>\<open>JSON.parse\<close> returns on the texts used in the examples below.\<close>

definition dq :: string where
  "dq = [CHR 0x22]"

text \<open>The rich-text document of the specification's example, as JSON text and decoded.\<close>

definition hello_text :: string where
  "hello_text =
     ''{'' @ dq @ ''type'' @ dq @ '':'' @ dq @ ''root'' @ dq @ '','' @
     dq @ ''children'' @ dq @ '':[{'' @
     dq @ ''type'' @ dq @ '':'' @ dq @ ''text'' @ dq @ '','' @
     dq @ ''value'' @ dq @ '':'' @ dq @ ''Hello'' @ dq @ ''},{'' @
     dq @ ''type'' @ dq @ '':'' @ dq @ ''text'' @ dq @ '','' @
     dq @ ''value'' @ dq @ '':'' @ dq @ ''world'' @ dq @ ''}]}''"

definition hello_json :: json where
  "hello_json =
     JObj [(''type'', JStr ''root''),
           (''children'',
            JArr [JObj [(''type'', JStr ''text''), (''value'', JStr ''Hello'')],
                  JObj [(''type'', JStr ''text''), (''value'', JStr ''world'')]])]"

text \<open>An answer of the generative API: an array of two handles.\<close>

definition handles_text :: string where
  "handles_text = ''['' @ dq @ ''red-shirt'' @ dq @ '', '' @ dq @ ''blue-hat'' @ dq @ '']''"

definition sample_parse :: "string \<Rightarrow> json option" where
  "sample_parse s =
     (if s = ''[]'' then Some (JArr [])
      else if s = handles_text then Some (JArr [JStr ''red-shirt'', JStr ''blue-hat''])
      else if s = hello_text then Some hello_json
      else None)"


definition priced_product :: "string \<Rightarrow> bundle_product" where
  "priced_product a =
     \<lparr>bp_id = ''gid://shopify/Product/1'', bp_handle = ''item'', bp_title = ''Item'',
      bp_featuredImage = None, variants = [], amount = a, currencyCode = ''INR''\<rparr>"

definition text_field :: "string \<Rightarrow> string \<Rightarrow> bundle_field" where
  "text_field k v =
     \<lparr>field_key = k, field_value = Some v, field_type = ''single_line_text_field'',
      field_reference = None, field_references = None\<rparr>"

definition products_field :: bundle_field where
  "products_field =
     \<lparr>field_key = ''products'', field_value = None, field_type = ''list.product_reference'',
      field_reference = None,
      field_references = Some [Product (priced_product ''60.00''), Product (priced_product ''40.00'')]\<rparr>"

text \<open>A bundle of two products, priced 60 and 40, of the given type and discount.\<close>

definition sample_bundle :: "string \<Rightarrow> string \<Rightarrow> metaobject" where
  "sample_bundle t d =
     \<lparr>mo_id = ''gid://shopify/Metaobject/1'', mo_handle = ''starter'',
      mo_fields = [text_field ''title'' ''Starter'', text_field ''bundle_type'' t,
                   text_field ''discount_value'' d, products_field]\<rparr>"

text \<open>The pricing part of what the loader returns.\<close>

definition pricing_of :: "js_error + loader_data \<Rightarrow> pricing option" where
  "pricing_of r = (case r of Inl e \<Rightarrow> None | Inr d \<Rightarrow> Some (ld_pricing d))"



text \<open>A response text that wraps the array in prose.\<close>

definition wrapped_text :: string where
  "wrapped_text = '' Here are my picks: '' @ handles_text @ '' Enjoy!\<newline>''"


section \<open>Properties of the recommendation code\<close>

subsection \<open>Auxiliary facts\<close>


lemma spec_append_fallback_eq:
  "spec_append_fallback cap M acc F =
     acc @ take (cap - length acc) (filter (\<lambda>p. handle p \<notin> set (map handle M)) F)"
  by (induction F arbitrary: acc) (auto simp: Suc_diff_le take_Cons')

lemma widget_merge_fill: "widget_merge M F = widget_fill M F"
  by (auto simp: widget_merge_def widget_fill_def Let_def)

lemma lib_merge_fill: "lib_merge M F = lib_fill M F"
  by (auto simp: lib_merge_def lib_fill_def Let_def)

lemma is_space_lower_char: "is_space (lower_char c) = is_space c"
  by (auto simp: lower_char_def is_space_def split: option.splits if_splits)

lemma lower_char_hyphen: "lower_char CHR ''-'' = CHR ''-''"
  by (simp add: lower_char_def)

lemma lower_replace_commute:
  "toLowerCase (replace_space_runs ''-'' t) = replace_space_runs ''-'' (map lower_char t)"
  by (induction "''-''" t rule: replace_space_runs.induct)
     (simp_all add: toLowerCase_def is_space_lower_char lower_char_hyphen dropWhile_map comp_def)

lemma widget_matches_spec: "widget_matches t p \<longleftrightarrow> handle p \<in> set (spec_encodings t)"
  by (auto simp: widget_matches_def spec_encodings_def remove_hyphens_def lower_replace_commute)

lemma lib_matches_spec: "lib_matches t p \<longleftrightarrow> handle p \<in> set (take 2 (spec_encodings t))"
  by (auto simp: lib_matches_def spec_encodings_def remove_hyphens_def)

lemma find_first_such: "find good xs = Some p \<longleftrightarrow> first_such good xs p"
proof
  assume "find good xs = Some p"
  then obtain i where i: "i < length xs" "good (xs ! i)" "p = xs ! i" "\<forall>j<i. \<not> good (xs ! j)"
    by (auto simp: find_Some_iff)
  have "xs = take i xs @ p # drop (Suc i) xs"
    using i(1,3) by (simp add: id_take_nth_drop)
  moreover have "\<forall>q \<in> set (take i xs). \<not> good q"
    using i(1,4) by (auto simp: in_set_conv_nth)
  ultimately show "first_such good xs p"
    unfolding first_such_def using i(2,3) by blast
next
  assume "first_such good xs p"
  then obtain pre post where "xs = pre @ p # post" "good p" "\<forall>q \<in> set pre. \<not> good q"
    unfolding first_such_def by blast
  then show "find good xs = Some p"
    by (induction pre arbitrary: xs) auto
qed

lemma map_throwing_strings:
  "map_throwing (\<lambda>t. Inr (f t)) ts = Inr (map f ts)"
  by (induction ts) auto

lemma filter_Boolean_concat:
  "filter_Boolean xs = concat (map (\<lambda>r. case r of None \<Rightarrow> [] | Some q \<Rightarrow> [q]) xs)"
  by (induction xs rule: filter_Boolean.induct) auto

subsection \<open>The widget without available products\<close>

text \<open>
  Claim C10. When the \<^verbatim>\<open>availableProducts\<close> list given to the widget is empty, the effect
  sets the rendered recommendations to the first six fallback products, clears the loading
  flag and sends no request: the list of requests is empty, whatever \<^verbatim>\<open>fetch\<close> would
  answer.
\<close>

theorem widget_without_products:
  "availableProducts pr = [] \<Longrightarrow>
   fetchRecommendations fetch pr st =
     ([], st\<lparr>recommendedProducts := take 6 (fallbackProducts pr), loading := False\<rparr>)"
  by (simp add: fetchRecommendations_def)

theorem widget_without_products_witness:
  "fetchRecommendations (\<lambda>r. Inl FetchFailed)
     \<lparr>currentProduct = None, availableProducts = [], userQuery = None,
      fallbackProducts = six_fallbacks @ [sample_product ''f7'']\<rparr> sample_state =
   ([], \<lparr>recommendedProducts = six_fallbacks, loading = False, error = None\<rparr>)"
  using widget_without_products
    [of "\<lparr>currentProduct = None, availableProducts = [], userQuery = None,
          fallbackProducts = six_fallbacks @ [sample_product ''f7'']\<rparr>"
        "\<lambda>r. Inl FetchFailed" sample_state]
  by (simp add: six_fallbacks_def sample_state_def)

subsection \<open>Filling with fallback products\<close>

text \<open>
  Claim C1, as the code has it. With fewer than four matched entries \<open>M\<close> and a fallback
  list \<open>F\<close> that is not empty, fallback products are appended in fallback order, skipping
  those whose handle is among the matched entries, until the combined count reaches six
  in the widget and four in \<^verbatim>\<open>getRecommendationsWithFallback\<close>, or \<open>F\<close> is exhausted.
  With no matched entry and \<open>F\<close> not empty the result is the first six elements of \<open>F\<close>
  in the widget and the first four in \<^verbatim>\<open>getRecommendationsWithFallback\<close>.
\<close>

theorem fallback_fill_policy:
  "(length M < 4 \<and> F \<noteq> [] \<longrightarrow> widget_merge M F = spec_append_fallback 6 M M F) \<and>
   (F \<noteq> [] \<longrightarrow> widget_merge [] F = take 6 F) \<and>
   (length M < 4 \<and> F \<noteq> [] \<longrightarrow> lib_merge M F = spec_append_fallback 4 M M F) \<and>
   (F \<noteq> [] \<longrightarrow> lib_merge [] F = take 4 F)"
  by (simp add: widget_merge_fill lib_merge_fill spec_append_fallback_eq widget_fill_def
      lib_fill_def)

theorem fallback_fill_policy_witness:
  "widget_merge [sample_product ''f2''] six_fallbacks =
     map sample_product [''f2'', ''f1'', ''f3'', ''f4'', ''f5'', ''f6''] \<and>
   widget_merge [] six_fallbacks = six_fallbacks \<and>
   lib_merge [sample_product ''f2''] six_fallbacks =
     map sample_product [''f2'', ''f1'', ''f3'', ''f4''] \<and>
   lib_merge [] six_fallbacks = map sample_product [''f1'', ''f2'', ''f3'', ''f4'']"
  using fallback_fill_policy [of "[sample_product ''f2'']" six_fallbacks]
        fallback_fill_policy [of "[]" six_fallbacks]
  by (simp add: six_fallbacks_def sample_product_def)

text \<open>
  The claim as stated fails on \<^verbatim>\<open>getRecommendationsWithFallback\<close>: the generative API
  answers with the empty array, nothing is matched, and of six fallback products the
  function returns the first four.
\<close>

theorem library_fill_stops_at_four:
  "getRecommendationsWithFallback (\<lambda>r. Inr (gemini_response ''[]'')) sample_parse
     (Some ''key'') sample_context six_fallbacks
   = map sample_product [''f1'', ''f2'', ''f3'', ''f4''] \<and>
   map sample_product [''f1'', ''f2'', ''f3'', ''f4''] \<noteq> take 6 six_fallbacks"
  by (simp add: getRecommendationsWithFallback_def getGeminiRecommendations_def
      gemini_response_def json_response_def sample_parse_def sample_context_def
      response_text_def parse_recommendations_def match_array_def trim_def is_space_def
      lib_recommended_def lib_merge_def lib_fill_def six_fallbacks_def sample_product_def)

subsection \<open>Matching handles\<close>

lemma widget_find_strings:
  "map_throwing (widget_find P) (map JStr ts) = Inr (map (\<lambda>t. find (widget_matches t) P) ts)"
  by (induction ts) auto

lemma lib_find_strings:
  "map_throwing (lib_find P) (map JStr ts) = Inr (map (\<lambda>t. find (lib_matches t) P) ts)"
  by (induction ts) auto

text \<open>
  Claim C3, as the code has it. A string token \<open>t\<close> resolves to the first available
  product whose stored handle is \<open>t\<close>, or \<open>t\<close> with all hyphens removed, or (in the
  widget only) \<open>t\<close> lower-cased with runs of white space replaced by single hyphens;
  \<^verbatim>\<open>getRecommendationsWithFallback\<close> tries the first two forms only. The hyphens are
  removed from the token, not from the stored handle: the tokens \<^verbatim>\<open>red-shirt\<close> and
  \<^verbatim>\<open>Red Shirt\<close> resolve to a product stored as \<^verbatim>\<open>red-shirt\<close> (the second in the widget
  only), the token \<^verbatim>\<open>redshirt\<close> does not, and the token \<^verbatim>\<open>red-shirt\<close> resolves to a product
  stored as \<^verbatim>\<open>redshirt\<close>. String tokens without a match raise no error and leave no entry
  in the matched sequence.
\<close>

theorem handle_matching:
  "(widget_find P (JStr t) = Inr (Some p) \<longleftrightarrow>
      first_such (\<lambda>q. handle q \<in> set (spec_encodings t)) P p) \<and>
   (widget_find P (JStr t) = Inr None \<longleftrightarrow> (\<forall>q \<in> set P. handle q \<notin> set (spec_encodings t))) \<and>
   (lib_find P (JStr t) = Inr (Some p) \<longleftrightarrow>
      first_such (\<lambda>q. handle q \<in> set (take 2 (spec_encodings t))) P p) \<and>
   (lib_find P (JStr t) = Inr None \<longleftrightarrow>
      (\<forall>q \<in> set P. handle q \<notin> set (take 2 (spec_encodings t)))) \<and>
   (handle p = ''red-shirt'' \<longrightarrow>
      widget_matches ''red-shirt'' p \<and> widget_matches ''Red Shirt'' p \<and>
      \<not> widget_matches ''redshirt'' p \<and>
      lib_matches ''red-shirt'' p \<and> \<not> lib_matches ''Red Shirt'' p \<and>
      \<not> lib_matches ''redshirt'' p) \<and>
   (handle p = ''redshirt'' \<longrightarrow> widget_matches ''red-shirt'' p \<and> lib_matches ''red-shirt'' p) \<and>
   widget_recommended P (map JStr ts) =
     Inr (take 6 (concat (map (\<lambda>t. case find (widget_matches t) P of
                                     None \<Rightarrow> [] | Some q \<Rightarrow> [q]) ts))) \<and>
   lib_recommended P (map JStr ts) =
     Inr (take 6 (concat (map (\<lambda>t. case find (lib_matches t) P of
                                     None \<Rightarrow> [] | Some q \<Rightarrow> [q]) ts)))"
proof -
  have w: "widget_matches t = (\<lambda>q. handle q \<in> set (spec_encodings t))"
    by (rule ext) (rule widget_matches_spec)
  have l: "lib_matches t = (\<lambda>q. handle q \<in> set (take 2 (spec_encodings t)))"
    by (rule ext) (rule lib_matches_spec)
  have 1: "widget_find P (JStr t) = Inr (Some p) \<longleftrightarrow>
      first_such (\<lambda>q. handle q \<in> set (spec_encodings t)) P p"
    using find_first_such [of "widget_matches t" P p] by (simp add: w [symmetric])
  have 2: "widget_find P (JStr t) = Inr None \<longleftrightarrow>
      (\<forall>q \<in> set P. handle q \<notin> set (spec_encodings t))"
    by (auto simp: find_None_iff widget_matches_spec)
  have 3: "lib_find P (JStr t) = Inr (Some p) \<longleftrightarrow>
      first_such (\<lambda>q. handle q \<in> set (take 2 (spec_encodings t))) P p"
    using find_first_such [of "lib_matches t" P p] by (simp add: l [symmetric])
  have 4: "lib_find P (JStr t) = Inr None \<longleftrightarrow>
      (\<forall>q \<in> set P. handle q \<notin> set (take 2 (spec_encodings t)))"
    by (auto simp: find_None_iff lib_matches_spec)
  have 5: "handle p = ''red-shirt'' \<longrightarrow>
      widget_matches ''red-shirt'' p \<and> widget_matches ''Red Shirt'' p \<and>
      \<not> widget_matches ''redshirt'' p \<and>
      lib_matches ''red-shirt'' p \<and> \<not> lib_matches ''Red Shirt'' p \<and>
      \<not> lib_matches ''redshirt'' p"
    by (simp add: widget_matches_def lib_matches_def remove_hyphens_def toLowerCase_def
        lower_char_def is_space_def)
  have 6: "handle p = ''redshirt'' \<longrightarrow>
      widget_matches ''red-shirt'' p \<and> lib_matches ''red-shirt'' p"
    by (simp add: widget_matches_def lib_matches_def remove_hyphens_def)
  have 7: "widget_recommended P (map JStr ts) =
     Inr (take 6 (concat (map (\<lambda>t. case find (widget_matches t) P of
                                     None \<Rightarrow> [] | Some q \<Rightarrow> [q]) ts)))"
    by (simp add: widget_recommended_def widget_find_strings filter_Boolean_concat comp_def)
  have 8: "lib_recommended P (map JStr ts) =
     Inr (take 6 (concat (map (\<lambda>t. case find (lib_matches t) P of
                                     None \<Rightarrow> [] | Some q \<Rightarrow> [q]) ts)))"
    by (simp add: lib_recommended_def lib_find_strings filter_Boolean_concat comp_def)
  from 1 2 3 4 5 6 7 8 show ?thesis
    by blast
qed

theorem handle_matching_witness:
  "handle red_shirt = ''red-shirt'' \<and>
   widget_find [blue_hat, red_shirt] (JStr ''Red Shirt'') = Inr (Some red_shirt) \<and>
   first_such (\<lambda>q. handle q \<in> set (spec_encodings ''Red Shirt'')) [blue_hat, red_shirt]
     red_shirt \<and>
   widget_matches ''red-shirt'' red_shirt \<and> widget_matches ''Red Shirt'' red_shirt \<and>
   \<not> widget_matches ''redshirt'' red_shirt \<and>
   lib_matches ''red-shirt'' red_shirt \<and> \<not> lib_matches ''Red Shirt'' red_shirt \<and>
   widget_recommended [blue_hat, red_shirt]
     (map JStr [''green'', ''Red Shirt'', ''blue-hat'']) = Inr [red_shirt, blue_hat]"
proof -
  let ?P = "[blue_hat, red_shirt]"
  note h = handle_matching [of ?P "''Red Shirt''" red_shirt "[''green'', ''Red Shirt'', ''blue-hat'']"]
  have hr: "handle red_shirt = ''red-shirt''"
    by (simp add: red_shirt_def sample_product_def)
  have f: "widget_find ?P (JStr ''Red Shirt'') = Inr (Some red_shirt)"
    by (simp add: red_shirt_def blue_hat_def sample_product_def widget_matches_def
        remove_hyphens_def toLowerCase_def lower_char_def is_space_def)
  have 1: "first_such (\<lambda>q. handle q \<in> set (spec_encodings ''Red Shirt'')) ?P red_shirt"
    using h [THEN conjunct1] f by (rule iffD1)
  have 2: "widget_matches ''red-shirt'' red_shirt \<and> widget_matches ''Red Shirt'' red_shirt \<and>
      \<not> widget_matches ''redshirt'' red_shirt \<and>
      lib_matches ''red-shirt'' red_shirt \<and> \<not> lib_matches ''Red Shirt'' red_shirt \<and>
      \<not> lib_matches ''redshirt'' red_shirt"
    using h [THEN conjunct2, THEN conjunct2, THEN conjunct2, THEN conjunct2, THEN conjunct1] hr
    by (rule mp)
  have 3: "widget_recommended ?P (map JStr [''green'', ''Red Shirt'', ''blue-hat'']) =
      Inr [red_shirt, blue_hat]"
    unfolding h [THEN conjunct2, THEN conjunct2, THEN conjunct2, THEN conjunct2, THEN conjunct2,
                 THEN conjunct2, THEN conjunct1]
    by (simp add: red_shirt_def blue_hat_def sample_product_def widget_matches_def
        remove_hyphens_def toLowerCase_def lower_char_def is_space_def)
  from hr f 1 2 3 show ?thesis
    by blast
qed

text \<open>
  The claim as stated fails: the token \<^verbatim>\<open>redshirt\<close> does not resolve to the product stored
  as \<^verbatim>\<open>red-shirt\<close>, in the widget or in the library, and the library does not resolve
  \<^verbatim>\<open>Red Shirt\<close> either.
\<close>

theorem redshirt_token_unmatched:
  "handle red_shirt = ''red-shirt'' \<and>
   widget_find [red_shirt] (JStr ''redshirt'') = Inr None \<and>
   lib_find [red_shirt] (JStr ''redshirt'') = Inr None \<and>
   lib_find [red_shirt] (JStr ''Red Shirt'') = Inr None"
  by (simp add: red_shirt_def sample_product_def widget_matches_def lib_matches_def
      remove_hyphens_def toLowerCase_def lower_char_def is_space_def)

subsection \<open>The merged output\<close>

















section \<open>Properties of the bundle page\<close>

subsection \<open>The price of a bundle\<close>




lemmas parseFloat_eval = parseFloat_def Let_def is_space_def is_digit_def digits_val_def
  digit_val_def exponent_part_def scale10_def

lemma num_add_NaN_right: "num_add x NaN = NaN"
  by (cases x) simp_all

lemma num_add_zero_right: "num_add x (Fin 0) = x"
  by (cases x) simp_all

lemma num_add_assoc: "num_add (num_add x y) z = num_add x (num_add y z)"
  by (cases x; cases y; cases z) simp_all

lemma subtotal_foldl:
  "foldl (\<lambda>sum p. let price = parseFloat (amount (np_reference p))
                   in num_add sum (if isNaN price then Fin 0 else price)) acc ps
   = num_add acc (spec_subtotal ps)"
  by (induction ps arbitrary: acc)
     (simp_all add: spec_subtotal_def num_sum_def amount_or_zero_def isNaN_def Let_def
        num_add_zero_right num_add_assoc)

lemma subtotal_of_spec: "subtotal_of ps = spec_subtotal ps"
proof -
  have "num_add (Fin 0) (spec_subtotal ps) = spec_subtotal ps"
    by (cases "spec_subtotal ps") simp_all
  then show ?thesis
    by (simp add: subtotal_of_def subtotal_foldl)
qed



lemma sample_bundle_fields:
  "formatBundleFields parse (mo_fields (sample_bundle t d)) =
     [''title'' \<mapsto> FString ''Starter'', ''bundle_type'' \<mapsto> FString t,
      ''discount_value'' \<mapsto> FString d]"
  by (simp add: formatBundleFields_def sample_bundle_def format_step_def text_field_def
      products_field_def)

lemma sample_bundle_products:
  "collectProducts (mo_fields (sample_bundle t d)) =
     [normalizeProduct (priced_product ''60.00''), normalizeProduct (priced_product ''40.00'')]"
  by (simp add: collectProducts_def sample_bundle_def field_products_def isProductField_def
      text_field_def products_field_def)

lemma sample_subtotal:
  "spec_subtotal ([normalizeProduct (priced_product ''60.00''), normalizeProduct (priced_product ''40.00'')])
     = Fin 100"
  by (simp add: spec_subtotal_def num_sum_def amount_or_zero_def normalizeProduct_def
      priced_product_def parseFloat_eval)

lemma sample_bundle_member:
  "([''id'' \<mapsto> FString (mo_id (sample_bundle t d)),
     ''handle'' \<mapsto> FString (mo_handle (sample_bundle t d))]
      ++ formatBundleFields parse (mo_fields (sample_bundle t d))) ''bundle_type''
     = Some (FString t) \<and>
   ([''id'' \<mapsto> FString (mo_id (sample_bundle t d)),
     ''handle'' \<mapsto> FString (mo_handle (sample_bundle t d))]
      ++ formatBundleFields parse (mo_fields (sample_bundle t d))) ''discount_value''
     = Some (FString d)"
  by (simp add: sample_bundle_fields map_add_def)

lemma sample_loader:
  "pricing_of (loader parse (Some (sample_bundle t d))) =
     Some (compute_pricing
       ([normalizeProduct (priced_product ''60.00''), normalizeProduct (priced_product ''40.00'')])
       ([''id'' \<mapsto> FString (mo_id (sample_bundle t d)),
         ''handle'' \<mapsto> FString (mo_handle (sample_bundle t d))]
          ++ formatBundleFields parse (mo_fields (sample_bundle t d))))"
  by (simp add: pricing_of_def loader_def Let_def sample_bundle_products)


text \<open>
  Claim C5, as the code has it. A discount value that is not a number makes the bundle
  price \<open>NaN\<close> under \<^verbatim>\<open>fixed_price\<close>, where nothing guards it. Under \<^verbatim>\<open>percentage\<close> the
  calculator tests \<^verbatim>\<open>Number.isNaN\<close> first: the bundle price stays the subtotal and the
  label stays empty.
\<close>

theorem discount_not_a_number:
  "(parseFloat_member (b ''discount_value'') = NaN \<and>
    b ''bundle_type'' = Some (FString ''fixed_price'') \<longrightarrow>
      bundlePrice (compute_pricing ps b) = NaN \<and> savingsLabel (compute_pricing ps b) = []) \<and>
   (parseFloat_member (b ''discount_value'') = NaN \<and>
    b ''bundle_type'' = Some (FString ''percentage'') \<longrightarrow>
      bundlePrice (compute_pricing ps b) = subtotal (compute_pricing ps b) \<and>
      savingsLabel (compute_pricing ps b) = [])"
  by (simp add: compute_pricing_def Let_def isNaN_def num_sub_def num_add_NaN_right)

theorem discount_not_a_number_witness:
  "parseFloat ''abc'' = NaN \<and>
   pricing_of (loader sample_parse (Some (sample_bundle ''fixed_price'' ''abc''))) =
     Some \<lparr>subtotal = Fin 100, bundlePrice = NaN, savingsLabel = []\<rparr> \<and>
   pricing_of (loader sample_parse (Some (sample_bundle ''percentage'' ''abc''))) =
     Some \<lparr>subtotal = Fin 100, bundlePrice = Fin 100, savingsLabel = []\<rparr>"
proof -
  let ?ps = "[normalizeProduct (priced_product ''60.00''), normalizeProduct (priced_product ''40.00'')]"
  let ?b = "\<lambda>t d. [''id'' \<mapsto> FString (mo_id (sample_bundle t d)),
                    ''handle'' \<mapsto> FString (mo_handle (sample_bundle t d))]
                   ++ formatBundleFields sample_parse (mo_fields (sample_bundle t d))"
  have n: "parseFloat ''abc'' = NaN"
    by (simp add: parseFloat_eval)
  have s: "subtotal (compute_pricing ?ps (?b t d)) = Fin 100" for t d
    by (simp add: compute_pricing_def Let_def subtotal_of_spec sample_subtotal)
  note m = sample_bundle_member [of _ _ sample_parse]
  have f: "compute_pricing ?ps (?b ''fixed_price'' ''abc'') =
      \<lparr>subtotal = Fin 100, bundlePrice = NaN, savingsLabel = []\<rparr>"
    using discount_not_a_number [of "?b ''fixed_price'' ''abc''" ?ps] n s
      m [of "''fixed_price''" "''abc''"]
    by (intro pricing.equality) simp_all
  have p: "compute_pricing ?ps (?b ''percentage'' ''abc'') =
      \<lparr>subtotal = Fin 100, bundlePrice = Fin 100, savingsLabel = []\<rparr>"
    using discount_not_a_number [of "?b ''percentage'' ''abc''" ?ps] n s
      m [of "''percentage''" "''abc''"]
    by (intro pricing.equality) simp_all
  from n f p show ?thesis
    by (simp add: sample_loader)
qed

text \<open>
  The claim as stated fails: a \<^verbatim>\<open>percentage\<close> bundle with the discount value \<^verbatim>\<open>abc\<close> has
  the bundle price 100, its subtotal.
\<close>

theorem percentage_guards_discount:
  "parseFloat ''abc'' = NaN \<and>
   pricing_of (loader sample_parse (Some (sample_bundle ''percentage'' ''abc''))) =
     Some \<lparr>subtotal = Fin 100, bundlePrice = Fin 100, savingsLabel = []\<rparr> \<and>
   Fin 100 \<noteq> NaN"
  by (simp add: sample_loader sample_bundle_member compute_pricing_def Let_def
      subtotal_of_spec sample_subtotal isNaN_def parseFloat_eval)

subsection \<open>File references in the flattened record\<close>







subsection \<open>Plain text of a rich-text field\<close>




section \<open>Properties of the generative API client\<close>

subsection \<open>The bracketed-array pattern\<close>

lemma dropWhile_dropWhile_weaker:
  "(\<And>x. P x \<Longrightarrow> Q x) \<Longrightarrow> dropWhile Q (dropWhile P xs) = dropWhile Q xs"
  by (induction xs) auto

lemma space_not_bracket: "is_space c \<Longrightarrow> c \<noteq> CHR ''['' \<and> c \<noteq> CHR '']''"
  by (auto simp: is_space_def)

lemma match_array_leading: "match_array (dropWhile is_space s) = match_array s"
  by (simp add: match_array_def dropWhile_dropWhile_weaker space_not_bracket)

lemma match_array_append_plain:
  assumes w: "\<forall>c \<in> set w. c \<noteq> CHR ''['' \<and> c \<noteq> CHR '']''"
  shows "match_array (core @ w) = match_array core"
proof (cases "CHR ''['' \<in> set core")
  case True
  then have d: "dropWhile (\<lambda>c. c \<noteq> CHR ''['') (core @ w) = dropWhile (\<lambda>c. c \<noteq> CHR ''['') core @ w"
    by (auto simp: dropWhile_append1)
  from True obtain b rest where r: "dropWhile (\<lambda>c. c \<noteq> CHR ''['') core = b # rest"
    by (cases "dropWhile (\<lambda>c. c \<noteq> CHR ''['') core") (auto simp: dropWhile_eq_Nil_conv)
  have m: "CHR '']'' \<in> set (rest @ w) \<longleftrightarrow> CHR '']'' \<in> set rest"
    using w by auto
  have "dropWhile (\<lambda>c. c \<noteq> CHR '']'') (rev w @ rev rest) = dropWhile (\<lambda>c. c \<noteq> CHR '']'') (rev rest)"
    using w by (intro dropWhile_append2) auto
  with d r m show ?thesis
    by (simp add: match_array_def)
next
  case False
  then have 1: "dropWhile (\<lambda>c. c \<noteq> CHR ''['') (core @ w) = []"
    using w by (auto simp: dropWhile_eq_Nil_conv)
  from False have 2: "dropWhile (\<lambda>c. c \<noteq> CHR ''['') core = []"
    by (auto simp: dropWhile_eq_Nil_conv)
  show ?thesis
    unfolding match_array_def 1 2 by simp
qed

lemma match_array_trailing: "match_array (rev (dropWhile is_space (rev s))) = match_array s"
proof -
  have "s = rev (dropWhile is_space (rev s)) @ rev (takeWhile is_space (rev s))"
    by (metis rev_append rev_rev_ident takeWhile_dropWhile_id)
  moreover have "\<forall>c \<in> set (rev (takeWhile is_space (rev s))). c \<noteq> CHR ''['' \<and> c \<noteq> CHR '']''"
    by (auto dest!: set_takeWhileD space_not_bracket)
  ultimately show ?thesis
    using match_array_append_plain by metis
qed

lemma match_array_trim: "match_array (trim s) = match_array s"
  by (simp add: trim_def match_array_trailing match_array_leading)

lemma greedy_match_computed:
  assumes "greedy_match s m"
  shows "match_array s = Some m"
proof -
  from assms obtain a inner z where s: "s = a @ m @ z" and m: "m = CHR ''['' # inner @ [CHR '']'']"
    and a: "CHR ''['' \<notin> set a" and z: "CHR '']'' \<notin> set z"
    unfolding greedy_match_def by blast
  have "dropWhile (\<lambda>c. c \<noteq> CHR ''['') (a @ CHR ''['' # inner @ CHR '']'' # z) =
      dropWhile (\<lambda>c. c \<noteq> CHR ''['') (CHR ''['' # inner @ CHR '']'' # z)"
    using a by (intro dropWhile_append2) auto
  then have 1: "dropWhile (\<lambda>c. c \<noteq> CHR ''['') s = CHR ''['' # inner @ CHR '']'' # z"
    by (simp add: s m)
  have "dropWhile (\<lambda>c. c \<noteq> CHR '']'') (rev z @ CHR '']'' # rev inner) =
      dropWhile (\<lambda>c. c \<noteq> CHR '']'') (CHR '']'' # rev inner)"
    using z by (intro dropWhile_append2) auto
  then have 2: "dropWhile (\<lambda>c. c \<noteq> CHR '']'') (rev z @ CHR '']'' # rev inner) = CHR '']'' # rev inner"
    by simp
  show ?thesis
    unfolding match_array_def 1 by (simp add: 2 m)
qed

lemma split_at_first:
  assumes "dropWhile P xs = b # rest"
  obtains a where "xs = a @ b # rest" and "\<forall>c \<in> set a. P c" and "\<not> P b"
proof
  show "xs = takeWhile P xs @ b # rest"
    by (metis assms takeWhile_dropWhile_id)
  show "\<forall>c \<in> set (takeWhile P xs). P c"
    by (auto dest: set_takeWhileD)
  show "\<not> P b"
    using hd_dropWhile [of P xs] assms by simp
qed

lemma match_array_greedy:
  assumes "match_array s = Some m"
  shows "greedy_match s m"
proof -
  let ?P = "\<lambda>c. c \<noteq> CHR ''[''" and ?Q = "\<lambda>c. c \<noteq> CHR '']''"
  from assms obtain b rest where d: "dropWhile ?P s = b # rest" and r: "CHR '']'' \<in> set rest"
    and m: "m = b # rev (dropWhile ?Q (rev rest))"
    by (auto simp: match_array_def split: list.splits if_splits)
  from d obtain a where a: "s = a @ b # rest" "\<forall>c \<in> set a. ?P c" "\<not> ?P b"
    by (rule split_at_first)
  from r obtain e more where e: "dropWhile ?Q (rev rest) = e # more"
    by (cases "dropWhile ?Q (rev rest)") (auto simp: dropWhile_eq_Nil_conv)
  from e obtain y where y: "rev rest = y @ e # more" "\<forall>c \<in> set y. ?Q c" "\<not> ?Q e"
    by (rule split_at_first)
  have "rev (rev rest) = rev (y @ e # more)"
    by (simp only: y(1))
  then have rest: "rest = rev more @ e # rev y"
    by simp
  have m': "m = b # rev more @ [e]"
    by (simp add: m e)
  have "s = a @ m @ rev y"
    by (simp add: a(1) rest m')
  moreover have "m = CHR ''['' # rev more @ [CHR '']'']"
    using a(3) y(3) by (simp add: m')
  moreover have "CHR ''['' \<notin> set a"
    using a(2) by auto
  moreover have "CHR '']'' \<notin> set (rev y)"
    using y(2) by auto
  ultimately show ?thesis
    unfolding greedy_match_def by blast
qed

lemma has_bracketed_matched:
  assumes "has_bracketed s"
  shows "match_array s \<noteq> None"
proof -
  let ?P = "\<lambda>c. c \<noteq> CHR ''[''"
  from assms obtain a inner z where s: "s = a @ CHR ''['' # inner @ CHR '']'' # z"
    unfolding has_bracketed_def by blast
  have "\<exists>b rest. dropWhile ?P s = b # rest \<and> CHR '']'' \<in> set rest"
  proof (cases "\<forall>c \<in> set a. ?P c")
    case True
    then have "dropWhile ?P (a @ CHR ''['' # inner @ CHR '']'' # z) =
        dropWhile ?P (CHR ''['' # inner @ CHR '']'' # z)"
      by (intro dropWhile_append2) auto
    then show ?thesis
      by (simp add: s)
  next
    case False
    then have 1: "dropWhile ?P (a @ CHR ''['' # inner @ CHR '']'' # z) =
        dropWhile ?P a @ CHR ''['' # inner @ CHR '']'' # z"
      by (auto simp: dropWhile_append1)
    from False obtain b rest' where 2: "dropWhile ?P a = b # rest'"
      by (cases "dropWhile ?P a") (auto simp: dropWhile_eq_Nil_conv)
    show ?thesis
      unfolding s 1 2 by simp
  qed
  then show ?thesis
    by (auto simp: match_array_def)
qed

lemma greedy_match_bracketed:
  assumes "greedy_match s m"
  shows "has_bracketed s"
proof -
  from assms obtain a inner z where "s = a @ m @ z" "m = CHR ''['' # inner @ [CHR '']'']"
    unfolding greedy_match_def by blast
  then have "s = a @ CHR ''['' # inner @ CHR '']'' # z"
    by simp
  then show ?thesis
    unfolding has_bracketed_def by blast
qed

lemma match_array_None: "match_array s = None \<longleftrightarrow> \<not> has_bracketed s"
  using has_bracketed_matched [of s] match_array_greedy [of s] greedy_match_bracketed [of s]
  by (cases "match_array s") auto

lemma match_array_Some: "match_array s = Some m \<longleftrightarrow> greedy_match s m"
  using match_array_greedy greedy_match_computed by blast

text \<open>
  Claim C7. For every raw response text, the parser fails exactly when the text has no
  match of the bracketed-array pattern, or the greedy match does not decode as JSON, or
  the decoded value is not an array; each of these failures is a \<open>ParseError\<close>. Otherwise
  it returns the decoded array of tokens. The texts \<^verbatim>\<open>no array here\<close> and \<^verbatim>\<open>{}\<close> fail with
  a \<open>ParseError\<close>.
\<close>

theorem response_parser:
  "((\<exists>e. parse_recommendations JSON_parse (trim raw) = Inl e) \<longleftrightarrow>
      (\<not> has_bracketed raw \<or>
       (\<exists>m. greedy_match raw m \<and>
          (JSON_parse m = None \<or> (\<exists>v. JSON_parse m = Some v \<and> \<not> is_array v))))) \<and>
   (parse_recommendations JSON_parse (trim raw) = Inl e \<longrightarrow> classify e = ParseError) \<and>
   (greedy_match raw m \<and> JSON_parse m = Some (JArr tokens) \<longrightarrow>
      parse_recommendations JSON_parse (trim raw) = Inr tokens) \<and>
   parse_recommendations JSON_parse (trim ''no array here'') =
     Inl (Error ''Could not parse recommendations from Gemini response'') \<and>
   parse_recommendations JSON_parse (trim ''{}'') =
     Inl (Error ''Could not parse recommendations from Gemini response'')"
proof -
  have 1: "(\<exists>e. parse_recommendations JSON_parse (trim raw) = Inl e) \<longleftrightarrow>
      (\<not> has_bracketed raw \<or>
       (\<exists>m. greedy_match raw m \<and>
          (JSON_parse m = None \<or> (\<exists>v. JSON_parse m = Some v \<and> \<not> is_array v))))"
  proof (cases "match_array raw")
    case None
    then show ?thesis
      using match_array_None [of raw]
      by (simp add: parse_recommendations_def match_array_trim)
  next
    case (Some m0)
    then have g: "greedy_match raw m = (m = m0)" for m
      unfolding match_array_Some [of raw m, symmetric] by auto
    from Some have h: "has_bracketed raw"
      using match_array_None [of raw] by simp
    show ?thesis
    proof (cases "JSON_parse m0")
      case None
      with Some h g show ?thesis
        by (simp add: parse_recommendations_def match_array_trim)
    next
      case (Some v)
      with \<open>match_array raw = Some m0\<close> h g show ?thesis
        by (cases v) (simp_all add: parse_recommendations_def match_array_trim)
    qed
  qed
  have 2: "parse_recommendations JSON_parse (trim raw) = Inl e \<longrightarrow> classify e = ParseError"
    by (auto simp: parse_recommendations_def split: option.splits json.splits)
  have 3: "greedy_match raw m \<and> JSON_parse m = Some (JArr tokens) \<longrightarrow>
      parse_recommendations JSON_parse (trim raw) = Inr tokens"
    using match_array_Some [of raw m]
    by (auto simp: parse_recommendations_def match_array_trim)
  have "match_array ''no array here'' = None"
    by (simp add: match_array_def)
  then have 4: "parse_recommendations JSON_parse (trim ''no array here'') =
     Inl (Error ''Could not parse recommendations from Gemini response'')"
    by (simp add: parse_recommendations_def match_array_trim)
  have "match_array ''{}'' = None"
    by (simp add: match_array_def)
  then have 5: "parse_recommendations JSON_parse (trim ''{}'') =
     Inl (Error ''Could not parse recommendations from Gemini response'')"
    by (simp add: parse_recommendations_def match_array_trim)
  from 1 2 3 4 5 show ?thesis
    by blast
qed

theorem response_parser_witness:
  "greedy_match wrapped_text handles_text \<and>
   sample_parse handles_text = Some (JArr [JStr ''red-shirt'', JStr ''blue-hat'']) \<and>
   parse_recommendations sample_parse (trim wrapped_text) =
     Inr [JStr ''red-shirt'', JStr ''blue-hat''] \<and>
   parse_recommendations sample_parse (trim ''no array here'') =
     Inl (Error ''Could not parse recommendations from Gemini response'') \<and>
   classify (Error ''Could not parse recommendations from Gemini response'') = ParseError \<and>
   greedy_match ''[oops]'' ''[oops]'' \<and> sample_parse ''[oops]'' = None \<and>
   (\<exists>e. parse_recommendations sample_parse (trim ''[oops]'') = Inl e)"
proof -
  have "match_array wrapped_text = Some handles_text"
    by (simp add: match_array_def wrapped_text_def handles_text_def dq_def)
  then have g: "greedy_match wrapped_text handles_text"
    by (simp add: match_array_Some)
  have p: "sample_parse handles_text = Some (JArr [JStr ''red-shirt'', JStr ''blue-hat''])"
    by (simp add: sample_parse_def handles_text_def dq_def)
  note h = response_parser [of sample_parse wrapped_text _ handles_text
      "[JStr ''red-shirt'', JStr ''blue-hat'']"]
  have 1: "parse_recommendations sample_parse (trim wrapped_text) =
     Inr [JStr ''red-shirt'', JStr ''blue-hat'']"
    using h [THEN conjunct2, THEN conjunct2, THEN conjunct1] g p by blast
  note n = response_parser [of sample_parse "''no array here''"
      "Error ''Could not parse recommendations from Gemini response''"]
  have 2: "parse_recommendations sample_parse (trim ''no array here'') =
     Inl (Error ''Could not parse recommendations from Gemini response'')"
    using n [THEN conjunct2, THEN conjunct2, THEN conjunct2, THEN conjunct1] .
  have 3: "classify (Error ''Could not parse recommendations from Gemini response'') = ParseError"
    using n [THEN conjunct2, THEN conjunct1] 2 by (rule mp)
  have "match_array ''[oops]'' = Some ''[oops]''"
    by (simp add: match_array_def)
  then have g2: "greedy_match ''[oops]'' ''[oops]''"
    by (simp add: match_array_Some)
  have p2: "sample_parse ''[oops]'' = None"
    by (simp add: sample_parse_def handles_text_def hello_text_def dq_def)
  have 4: "\<exists>e. parse_recommendations sample_parse (trim ''[oops]'') = Inl e"
    using response_parser [of sample_parse "''[oops]''", THEN conjunct1] g2 p2 by blast
  from g p 1 2 3 g2 p2 4 show ?thesis
    by blast
qed

subsection \<open>The error contract\<close>





end
